theory Spec2Isabelle
  imports Complex_Main "HOL-Library.Multiset" "HOL-Library.Char_ord" "HOL-Library.List_Lexorder"
begin

section \<open>The dataset loader of quantumfed (src/quantumfed/data/datasets.py)\<close>

text \<open>
  The module is a thin pipeline over pandas and scikit-learn: load a headerless CSV file,
  one-hot encode and min-max scale the feature columns, split the rows into a train and
  a test part. The functions of the module are embedded one by one, under their own
  names. The library calls they make are embedded from the libraries' documented
  behaviour, under the libraries' names; Python floats are taken as real numbers, so the
  rounding of float arithmetic is outside the model.
\<close>

subsection \<open>Python values: exceptions, printed lines, numbers as text\<close>

text \<open>
  An exception is a value; a function that can raise returns \<open>py_error + 'a\<close>.
  Exceptions raised inside a library carry a short tag in place of the library's own
  message text; the message of the factory's \<open>ValueError\<close> is the source's.
\<close>

datatype py_error =
    ValueError string
  | IndexError string
  | FileNotFoundError string
  | OtherError string

text \<open>\<open>main.py\<close> wraps the factory call in \<open>except (ValueError, FileNotFoundError)\<close>.\<close>

fun caught_by_main :: "py_error \<Rightarrow> bool" where
  "caught_by_main (ValueError m) = True"
| "caught_by_main (FileNotFoundError m) = True"
| "caught_by_main (IndexError m) = False"
| "caught_by_main (OtherError m) = False"

definition digit_char :: "nat \<Rightarrow> char" where
  "digit_char d = ''0123456789'' ! d"

text \<open>\<open>str(n)\<close> for a non-negative integer, as an f-string formats it.\<close>

function str_nat :: "nat \<Rightarrow> string" where
  "str_nat n = (if n < 10 then [digit_char n] else str_nat (n div 10) @ [digit_char (n mod 10)])"
  by pat_completeness auto
termination
  by (relation "measure (\<lambda>n. n)") auto

declare str_nat.simps [simp del]

definition str_int :: "int \<Rightarrow> string" where
  "str_int i = (if i < 0 then CHR ''-'' # str_nat (nat (- i)) else str_nat (nat i))"

text \<open>
  \<open>repr\<close> of a string without quotes, backslashes or control characters (the registry's
  keys are such strings), and \<open>str\<close> of a list of them: \<open>['a', 'b']\<close>.
\<close>

definition repr_str :: "string \<Rightarrow> string" where
  "repr_str s = [CHR 0x27] @ s @ [CHR 0x27]"

fun join_comma :: "string list \<Rightarrow> string" where
  "join_comma [] = []"
| "join_comma [s] = s"
| "join_comma (s # t # ss) = s @ '', '' @ join_comma (t # ss)"

definition str_list :: "string list \<Rightarrow> string" where
  "str_list ss = ''['' @ join_comma (map repr_str ss) @ '']''"

subsection \<open>pandas: tables\<close>

text \<open>
  A cell of a parsed table: a finite number, a missing value (\<open>NaN\<close>), an infinity
  (pandas reads \<open>inf\<close> and \<open>-inf\<close> as floats) or a string. A column that holds a string
  has dtype \<open>object\<close>; every other column is numeric.
\<close>

datatype cell = Num real | NaN | PosInf | NegInf | Str string

datatype label = Pos nat | Name string

text \<open>
  A \<open>DataFrame\<close> is stored by columns, each with its label; \<open>nrows\<close> is the length of
  the index. \<open>pd.DataFrame()\<close> has no rows and no columns.
\<close>

record DataFrame =
  nrows :: nat
  cols :: "(label \<times> cell list) list"

definition empty_DataFrame :: DataFrame where
  "empty_DataFrame = \<lparr>nrows = 0, cols = []\<rparr>"


text \<open>
  \<open>df.columns = names\<close>: pandas raises \<open>ValueError\<close> (length mismatch) unless there is one
  name for each column.
\<close>

definition set_columns :: "DataFrame \<Rightarrow> string list \<Rightarrow> py_error + DataFrame" where
  "set_columns df names =
     (if length names \<noteq> length (cols df) then Inl (ValueError ''Length mismatch'')
      else Inr (df\<lparr>cols := map2 (\<lambda>n c. (Name n, snd c)) names (cols df)\<rparr>))"

text \<open>
  \<open>df.iloc[:, :-1]\<close> is a slice and never raises; \<open>df.iloc[:, -1]\<close> is a single
  positional index and raises \<open>IndexError\<close> on a table with no column.
\<close>

definition iloc_all_but_last :: "DataFrame \<Rightarrow> DataFrame" where
  "iloc_all_but_last df = df\<lparr>cols := butlast (cols df)\<rparr>"

definition iloc_last :: "DataFrame \<Rightarrow> py_error + (label \<times> cell list)" where
  "iloc_last df =
     (if cols df = [] then Inl (IndexError ''single positional indexer is out-of-bounds'')
      else Inr (last (cols df)))"

subsection \<open>The world a loader runs in\<close>

text \<open>
  \<open>files w p\<close> is the outcome of \<open>pd.read_csv(p, header=None)\<close>: the parsed table, its
  columns labelled by position, or the exception raised (\<open>FileNotFoundError\<close> when
  nothing is at \<open>p\<close>; a parser or an OS error otherwise). \<open>np_random\<close> is the state of
  numpy's global random generator.
\<close>

record 'g world =
  files :: "string \<Rightarrow> py_error + DataFrame"
  np_random :: 'g

subsection \<open>SimpleNSLKDD._load_data\<close>

definition SimpleNSLKDD_load_data :: "'g world \<Rightarrow> string \<Rightarrow> string list \<times> (py_error + DataFrame)" where
  "SimpleNSLKDD_load_data w data_path =
     (case files w data_path of
        Inr df \<Rightarrow>
          (let num_features = length (cols df) - 1 in
           ([], set_columns df (map (\<lambda>i. ''feature_'' @ str_nat i) [0..<num_features] @ [''label''])))
      | Inl (FileNotFoundError m) \<Rightarrow>
          ([''Error: Data file not found at '' @ data_path,
            ''Please create a dummy data file to proceed.''],
           Inr empty_DataFrame)
      | Inl e \<Rightarrow> ([], Inl e))"

subsection \<open>pandas.get_dummies(X, drop_first=True)\<close>

text \<open>
  Only the columns of dtype \<open>object\<close> are encoded. The categories of such a column are
  its distinct strings in sorted order; the first is dropped and each other category
  becomes an indicator column. A missing cell belongs to no category. The columns that
  are not encoded come first, in their order, then the indicator columns.
\<close>

definition is_object :: "cell list \<Rightarrow> bool" where
  "is_object cs = list_ex (\<lambda>c. case c of Str s \<Rightarrow> True | _ \<Rightarrow> False) cs"

definition levels :: "cell list \<Rightarrow> string list" where
  "levels cs = sort (remdups (concat (map (\<lambda>c. case c of Str s \<Rightarrow> [s] | _ \<Rightarrow> []) cs)))"

fun str_label :: "label \<Rightarrow> string" where
  "str_label (Pos n) = str_nat n"
| "str_label (Name s) = s"

definition indicator :: "string \<Rightarrow> cell \<Rightarrow> cell" where
  "indicator s c = (if c = Str s then Num 1 else Num 0)"

definition dummies :: "label \<times> cell list \<Rightarrow> (label \<times> cell list) list" where
  "dummies col =
     map (\<lambda>s. (Name (str_label (fst col) @ ''_'' @ s), map (indicator s) (snd col)))
         (tl (levels (snd col)))"

definition get_dummies :: "DataFrame \<Rightarrow> DataFrame" where
  "get_dummies X =
     X\<lparr>cols := filter (\<lambda>c. \<not> is_object (snd c)) (cols X)
               @ concat (map dummies (filter (\<lambda>c. is_object (snd c)) (cols X)))\<rparr>"

subsection \<open>sklearn.preprocessing.MinMaxScaler().fit_transform(X)\<close>

text \<open>
  The scaler refuses a table without a row or without a column, an infinity and a string
  (\<open>ValueError\<close>). A missing value is disregarded in fitting and kept in the result.
  Every column is fitted on its own: with \<open>data_min\<close> and \<open>data_max\<close> its least and
  greatest number, \<open>scale = 1 / (data_max - data_min)\<close>, where a range below ten machine
  epsilons counts as constant and is replaced by 1, and the offset is
  \<open>min0 = 0 - data_min * scale\<close>; a value \<open>x\<close> becomes \<open>x * scale + min0\<close>. The result is
  an array of rows. (\<open>scale\<close> and \<open>min0\<close> are the scaler's attributes \<^verbatim>\<open>scale_\<close> and
  \<^verbatim>\<open>min_\<close>.)
\<close>

definition float_eps :: real where
  "float_eps = 1 / 2 ^ 52"

definition numbers :: "cell list \<Rightarrow> real list" where
  "numbers cs = concat (map (\<lambda>c. case c of Num x \<Rightarrow> [x] | _ \<Rightarrow> []) cs)"

definition handle_zeros_in_scale :: "real \<Rightarrow> real" where
  "handle_zeros_in_scale r = (if r < 10 * float_eps then 1 else r)"

definition scale_cell :: "real \<Rightarrow> real \<Rightarrow> cell \<Rightarrow> cell" where
  "scale_cell scale min0 c = (case c of Num x \<Rightarrow> Num (x * scale + min0) | _ \<Rightarrow> c)"

definition minmax_column :: "cell list \<Rightarrow> cell list" where
  "minmax_column cs =
     (let xs = numbers cs in
      if xs = [] then cs
      else
        let data_min = Min (set xs);
            data_max = Max (set xs);
            scale = 1 / handle_zeros_in_scale (data_max - data_min);
            min0 = 0 - data_min * scale
        in map (scale_cell scale min0) cs)"

definition not_finite_ok :: "cell \<Rightarrow> bool" where
  "not_finite_ok c = (case c of Num x \<Rightarrow> False | NaN \<Rightarrow> False | _ \<Rightarrow> True)"

definition to_rows :: "nat \<Rightarrow> cell list list \<Rightarrow> cell list list" where
  "to_rows n cs = map (\<lambda>i. map (\<lambda>c. c ! i) cs) [0..<n]"

definition MinMaxScaler_fit_transform :: "DataFrame \<Rightarrow> py_error + cell list list" where
  "MinMaxScaler_fit_transform X =
     (if nrows X = 0 \<or> cols X = [] then Inl (ValueError ''Found array with 0 sample(s) or 0 feature(s)'')
      else if list_ex (\<lambda>c. list_ex not_finite_ok (snd c)) (cols X)
        then Inl (ValueError ''Input X contains infinity or a string'')
      else Inr (to_rows (nrows X) (map (\<lambda>c. minmax_column (snd c)) (cols X))))"

subsection \<open>BaseDataset._preprocess\<close>

definition preprocess :: "DataFrame \<Rightarrow> py_error + (cell list list \<times> cell list)" where
  "preprocess df =
     (let X = iloc_all_but_last df in
      case iloc_last df of
        Inl e \<Rightarrow> Inl e
      | Inr y \<Rightarrow>
          (let X = get_dummies X in
           case MinMaxScaler_fit_transform X of
             Inl e \<Rightarrow> Inl e
           | Inr X \<Rightarrow> Inr (X, snd y)))"

subsection \<open>sklearn.model_selection.train_test_split\<close>

text \<open>
  What the model takes from scikit-learn and numpy as given: \<open>RandomState seed\<close> is a
  fresh generator seeded with \<open>seed\<close>; \<open>permutation g n\<close> is the order in which
  generator \<open>g\<close> shuffles \<open>0..n-1\<close>; \<open>stratified_shuffle g y n_train n_test\<close> is what
  \<open>StratifiedShuffleSplit\<close> does with the classes \<open>y\<close>: the train and the test indices,
  or the \<open>ValueError\<close> it raises (a class with a single member, fewer test or train rows
  than classes, a missing label).
\<close>

record 'g sklearn =
  RandomState :: "int \<Rightarrow> 'g"
  permutation :: "'g \<Rightarrow> nat \<Rightarrow> nat list"
  stratified_shuffle :: "'g \<Rightarrow> cell list \<Rightarrow> nat \<Rightarrow> nat \<Rightarrow> py_error + (nat list \<times> nat list)"

text \<open>\<open>check_random_state\<close>: an integer seeds a generator of its own; \<open>None\<close> is the global one.\<close>

definition check_random_state :: "'g sklearn \<Rightarrow> 'g world \<Rightarrow> int option \<Rightarrow> 'g" where
  "check_random_state lib w seed = (case seed of None \<Rightarrow> np_random w | Some s \<Rightarrow> RandomState lib s)"

text \<open>
  A float \<open>test_size\<close> must lie strictly between 0 and 1; the test part has
  \<open>ceil(test_size * n_samples)\<close> rows and the train part the rest, which must not be empty.
\<close>

definition validate_shuffle_split :: "nat \<Rightarrow> real \<Rightarrow> py_error + (nat \<times> nat)" where
  "validate_shuffle_split n_samples test_size =
     (if test_size \<le> 0 \<or> 1 \<le> test_size then Inl (ValueError ''test_size out of range'')
      else
        let n_test = nat \<lceil>test_size * real n_samples\<rceil>;
            n_train = n_samples - n_test
        in if n_train = 0 then Inl (ValueError ''the resulting train set will be empty'')
           else Inr (n_train, n_test))"

text \<open>\<open>ShuffleSplit\<close>: the first \<open>n_test\<close> entries of the permutation test, the next \<open>n_train\<close> train.\<close>

definition shuffle_split :: "'g sklearn \<Rightarrow> 'g \<Rightarrow> nat \<Rightarrow> nat \<Rightarrow> nat \<Rightarrow> nat list \<times> nat list" where
  "shuffle_split lib g n_samples n_train n_test =
     (let p = permutation lib g n_samples in (take n_train (drop n_test p), take n_test p))"

text \<open>Indexing an array with an index array; an index out of range raises.\<close>

definition safe_indexing :: "'a list \<Rightarrow> nat list \<Rightarrow> py_error + 'a list" where
  "safe_indexing a idx =
     (if list_all (\<lambda>i. i < length a) idx then Inr (map (\<lambda>i. a ! i) idx)
      else Inl (IndexError ''index out of bounds''))"

definition train_test_split ::
  "'g sklearn \<Rightarrow> 'g world \<Rightarrow> cell list list \<Rightarrow> cell list \<Rightarrow> real \<Rightarrow> int option \<Rightarrow> cell list option
     \<Rightarrow> py_error + (cell list list \<times> cell list list \<times> cell list \<times> cell list)" where
  "train_test_split lib w X y test_size random_state stratify =
     (if length X \<noteq> length y then Inl (ValueError ''inconsistent numbers of samples'')
      else
        (case validate_shuffle_split (length X) test_size of
          Inl e \<Rightarrow> Inl e
        | Inr (n_train, n_test) \<Rightarrow>
            (let g = check_random_state lib w random_state in
             case (case stratify of
                     None \<Rightarrow> Inr (shuffle_split lib g (length X) n_train n_test)
                   | Some classes \<Rightarrow> stratified_shuffle lib g classes n_train n_test) of
               Inl e \<Rightarrow> Inl e
             | Inr (train, test) \<Rightarrow>
                 (case safe_indexing X train of Inl e \<Rightarrow> Inl e | Inr Xtr \<Rightarrow>
                 (case safe_indexing X test of Inl e \<Rightarrow> Inl e | Inr Xte \<Rightarrow>
                 (case safe_indexing y train of Inl e \<Rightarrow> Inl e | Inr ytr \<Rightarrow>
                 (case safe_indexing y test of Inl e \<Rightarrow> Inl e | Inr yte \<Rightarrow>
                    Inr (Xtr, Xte, ytr, yte))))))))"

subsection \<open>BaseDataset: the loader object\<close>

record BaseDataset =
  data_path :: string
  test_size :: real
  random_state :: int
  X_train :: "cell list list option"
  y_train :: "cell list option"
  X_test :: "cell list list option"
  y_test :: "cell list option"

text \<open>The concrete classes; \<open>load_data\<close> dispatches the abstract method \<open>_load_data\<close>.\<close>

datatype dataset_class = SimpleNSLKDD

fun load_data :: "dataset_class \<Rightarrow> 'g world \<Rightarrow> string \<Rightarrow> string list \<times> (py_error + DataFrame)" where
  "load_data SimpleNSLKDD w p = SimpleNSLKDD_load_data w p"

text \<open>\<open>int(x)\<close> on a float truncates towards zero.\<close>

definition py_int :: "real \<Rightarrow> int" where
  "py_int x = (if 0 \<le> x then \<lfloor>x\<rfloor> else \<lceil>x\<rceil>)"

definition stratify_warning :: "int \<Rightarrow> nat \<Rightarrow> string" where
  "stratify_warning test_samples num_classes =
     ''Warning: Test set size ('' @ str_int test_samples
     @ '') is smaller than number of classes ('' @ str_nat num_classes
     @ ''). Disabling stratification for this split.''"

text \<open>The tuple assignment of \<open>_split_data\<close>: the four parts become the object's fields.\<close>

definition store_split ::
  "BaseDataset \<Rightarrow> cell list list \<times> cell list list \<times> cell list \<times> cell list \<Rightarrow> BaseDataset" where
  "store_split self parts =
     (case parts of (Xtr, Xte, ytr, yte) \<Rightarrow>
        self\<lparr>X_train := Some Xtr, X_test := Some Xte, y_train := Some ytr, y_test := Some yte\<rparr>)"

text \<open>
  \<open>_split_data\<close> returns the lines it prints and the loader with its four containers
  set, or the exception of \<open>train_test_split\<close>.
\<close>

definition split_data ::
  "'g sklearn \<Rightarrow> 'g world \<Rightarrow> BaseDataset \<Rightarrow> cell list list \<Rightarrow> cell list
     \<Rightarrow> string list \<times> (py_error + BaseDataset)" where
  "split_data lib w self X y =
     (let num_samples = length y;
          num_classes = length (remdups y);
          test_samples = py_int (real num_samples * test_size self);
          should_stratify = (int num_classes \<le> test_samples);
          stratify_option = (if should_stratify then Some y else None);
          warning = (if \<not> should_stratify then [stratify_warning test_samples num_classes] else [])
      in case train_test_split lib w X y (test_size self) (Some (random_state self)) stratify_option of
           Inl e \<Rightarrow> (warning, Inl e)
         | Inr (Xtr, Xte, ytr, yte) \<Rightarrow>
             (warning @ [''Data split completed.'',
                         ''Train set size: '' @ str_nat (length Xtr),
                         ''Test set size: '' @ str_nat (length Xte)],
              Inr (store_split self (Xtr, Xte, ytr, yte))))"

definition load_and_process ::
  "'g sklearn \<Rightarrow> 'g world \<Rightarrow> dataset_class \<Rightarrow> BaseDataset \<Rightarrow> string list \<times> (py_error + BaseDataset)" where
  "load_and_process lib w cls self =
     (let out1 = [''Loading data from '' @ data_path self @ ''...''];
          (out2, loaded) = load_data cls w (data_path self)
      in case loaded of
           Inl e \<Rightarrow> (out1 @ out2, Inl e)
         | Inr raw_df \<Rightarrow>
             (let out3 = [''Preprocessing data...''] in
              case preprocess raw_df of
                Inl e \<Rightarrow> (out1 @ out2 @ out3, Inl e)
              | Inr (X, y) \<Rightarrow>
                  (let (out4, res) = split_data lib w self X y in
                   case res of
                     Inl e \<Rightarrow> (out1 @ out2 @ out3 @ out4, Inl e)
                   | Inr self' \<Rightarrow> (out1 @ out2 @ out3 @ out4 @ [''Dataset ready.''], Inr self'))))"

text \<open>\<open>__init__\<close>: the constructor returns the object only if the pipeline does not raise.\<close>

definition init ::
  "'g sklearn \<Rightarrow> 'g world \<Rightarrow> dataset_class \<Rightarrow> string \<Rightarrow> real \<Rightarrow> int
     \<Rightarrow> string list \<times> (py_error + BaseDataset)" where
  "init lib w cls path tsize rstate =
     load_and_process lib w cls
       \<lparr>data_path = path, test_size = tsize, random_state = rstate,
        X_train = None, y_train = None, X_test = None, y_test = None\<rparr>"

text \<open>\<open>get_data\<close> returns the tuple and the (unchanged) object.\<close>

definition get_data ::
  "BaseDataset \<Rightarrow> (cell list list option \<times> cell list option \<times> cell list list option \<times> cell list option) \<times> BaseDataset" where
  "get_data self = ((X_train self, y_train self, X_test self, y_test self), self)"

subsection \<open>get_dataset\<close>

definition dataset_map :: "(string \<times> dataset_class) list" where
  "dataset_map = [(''simple_nslkdd'', SimpleNSLKDD)]"

text \<open>
  The factory calls the class with the path alone, so \<open>__init__\<close> takes the defaults of its
  signature: \<open>test_size=0.2, random_state=42\<close>.
\<close>

definition default_test_size :: real where
  "default_test_size = 2 / 10"

definition default_random_state :: int where
  "default_random_state = 42"

definition get_dataset ::
  "'g sklearn \<Rightarrow> 'g world \<Rightarrow> string \<Rightarrow> string \<Rightarrow> string list \<times> (py_error + BaseDataset)" where
  "get_dataset lib w name path =
     (case map_of dataset_map name of
        None \<Rightarrow>
          ([], Inl (ValueError (''Dataset '' @ [CHR 0x27] @ name @ [CHR 0x27]
                               @ '' not recognized. Available datasets: ''
                               @ str_list (map fst dataset_map))))
      | Some cls \<Rightarrow> init lib w cls path default_test_size default_random_state)"

text \<open>Any number of successive \<open>get_data\<close> calls, each on the object the previous one left.\<close>

fun get_data_calls ::
  "nat \<Rightarrow> BaseDataset
     \<Rightarrow> (cell list list option \<times> cell list option \<times> cell list list option \<times> cell list option) list
        \<times> BaseDataset" where
  "get_data_calls 0 self = ([], self)"
| "get_data_calls (Suc n) self =
     (let (r, self') = get_data self; (rs, self'') = get_data_calls n self' in (r # rs, self''))"

subsection \<open>Predicates the properties are stated with\<close>

text \<open>The lines \<open>_split_data\<close> prints after a split that did not raise.\<close>

definition split_report ::
  "py_error + (cell list list \<times> cell list list \<times> cell list \<times> cell list) \<Rightarrow> string list" where
  "split_report r =
     (case r of
        Inl e \<Rightarrow> []
      | Inr (Xtr, Xte, ytr, yte) \<Rightarrow>
          [''Data split completed.'',
           ''Train set size: '' @ str_nat (length Xtr),
           ''Test set size: '' @ str_nat (length Xte)])"

text \<open>
  What scikit-learn promises of its index generators: a permutation of \<open>0..n-1\<close> is one,
  and the train and test indices of a stratified split are distinct rows of the data, as
  many as were asked for.
\<close>

definition sklearn_contract :: "'g sklearn \<Rightarrow> bool" where
  "sklearn_contract lib =
     ((\<forall>g n. mset (permutation lib g n) = mset [0..<n])
      \<and> (\<forall>g y n_train n_test train test.
            stratified_shuffle lib g y n_train n_test = Inr (train, test) \<longrightarrow>
              length train = n_train \<and> length test = n_test \<and> distinct (train @ test)
              \<and> (\<forall>i \<in> set (train @ test). i < length y)))"




subsection \<open>An example world\<close>

text \<open>
  The file of the specification's end-to-end example: ten rows, three numeric feature
  columns (one of them constant), a categorical column with two categories and a binary
  label, six rows against four. Beside it a file with a single row and a file with a
  missing cell; no other path exists. The library's generators are stood in for by the
  permutation that reverses and by a stratified splitter that hands out the first
  indices as the test part.
\<close>

definition example_table :: DataFrame where
  "example_table =
     \<lparr>nrows = 10,
      cols = [(Pos 0, [Num 0, Num 2, Num 4, Num 6, Num 8, Num 10, Num 12, Num 14, Num 16, Num 20]),
              (Pos 1, [Num 5, Num 5, Num 5, Num 5, Num 5, Num 5, Num 5, Num 5, Num 5, Num 5]),
              (Pos 2, [Num (- 1), Num 1, Num (- 1), Num 1, Num 0, Num 0, Num 1, Num (- 1), Num 1, Num 3]),
              (Pos 3, [Str ''tcp'', Str ''udp'', Str ''tcp'', Str ''tcp'', Str ''udp'',
                       Str ''udp'', Str ''tcp'', Str ''udp'', Str ''tcp'', Str ''udp'']),
              (Pos 4, [Str ''normal'', Str ''attack'', Str ''normal'', Str ''normal'', Str ''attack'',
                       Str ''normal'', Str ''attack'', Str ''normal'', Str ''attack'', Str ''normal''])]\<rparr>"

definition single_row_table :: DataFrame where
  "single_row_table = \<lparr>nrows = 1, cols = [(Pos 0, [Num 7]), (Pos 1, [Str ''normal''])]\<rparr>"

definition gappy_table :: DataFrame where
  "gappy_table =
     \<lparr>nrows = 3,
      cols = [(Pos 0, [Num 1, NaN, Num 3]),
              (Pos 1, [Num 0, Num 1, Num 0])]\<rparr>"

definition example_world :: "int world" where
  "example_world =
     \<lparr>files = (\<lambda>p. if p = ''data.csv'' then Inr example_table
                   else if p = ''one_row.csv'' then Inr single_row_table
                   else if p = ''gaps.csv'' then Inr gappy_table
                   else Inl (FileNotFoundError p)),
      np_random = 0\<rparr>"

text \<open>The same file under \<open>data.csv\<close>, another global generator state, no other file.\<close>

definition later_world :: "int world" where
  "later_world =
     \<lparr>files = (\<lambda>p. if p = ''data.csv'' then Inr example_table else Inl (FileNotFoundError p)),
      np_random = 7\<rparr>"

definition example_sklearn :: "int sklearn" where
  "example_sklearn =
     \<lparr>RandomState = (\<lambda>s. s),
      permutation = (\<lambda>g n. rev [0..<n]),
      stratified_shuffle = (\<lambda>g y n_train n_test.
         if n_train + n_test = length y then Inr ([n_test..<n_test + n_train], [0..<n_test])
         else Inl (ValueError ''bad sizes''))\<rparr>"

text \<open>What the pipeline makes of the example file with the factory's defaults.\<close>

definition example_X :: "cell list list" where
  "example_X =
     [[Num 0, Num 0, Num 0, Num 0],
      [Num (1 / 10), Num 0, Num (1 / 2), Num 1],
      [Num (1 / 5), Num 0, Num 0, Num 0],
      [Num (3 / 10), Num 0, Num (1 / 2), Num 0],
      [Num (2 / 5), Num 0, Num (1 / 4), Num 1],
      [Num (1 / 2), Num 0, Num (1 / 4), Num 1],
      [Num (3 / 5), Num 0, Num (1 / 2), Num 0],
      [Num (7 / 10), Num 0, Num 0, Num 1],
      [Num (4 / 5), Num 0, Num (1 / 2), Num 0],
      [Num 1, Num 0, Num 1, Num 1]]"

definition example_y :: "cell list" where
  "example_y =
     [Str ''normal'', Str ''attack'', Str ''normal'', Str ''normal'', Str ''attack'',
      Str ''normal'', Str ''attack'', Str ''normal'', Str ''attack'', Str ''normal'']"

definition example_output :: "string list" where
  "example_output =
     [''Loading data from data.csv...'', ''Preprocessing data...'',
      ''Data split completed.'', ''Train set size: 8'', ''Test set size: 2'',
      ''Dataset ready.'']"

definition example_loader :: BaseDataset where
  "example_loader =
     \<lparr>data_path = ''data.csv'', test_size = 2 / 10, random_state = 42,
      X_train = Some [[Num (1 / 5), Num 0, Num 0, Num 0],
                      [Num (3 / 10), Num 0, Num (1 / 2), Num 0],
                      [Num (2 / 5), Num 0, Num (1 / 4), Num 1],
                      [Num (1 / 2), Num 0, Num (1 / 4), Num 1],
                      [Num (3 / 5), Num 0, Num (1 / 2), Num 0],
                      [Num (7 / 10), Num 0, Num 0, Num 1],
                      [Num (4 / 5), Num 0, Num (1 / 2), Num 0],
                      [Num 1, Num 0, Num 1, Num 1]],
      y_train = Some [Str ''normal'', Str ''normal'', Str ''attack'', Str ''normal'',
                      Str ''attack'', Str ''normal'', Str ''attack'', Str ''normal''],
      X_test = Some [[Num 0, Num 0, Num 0, Num 0],
                     [Num (1 / 10), Num 0, Num (1 / 2), Num 1]],
      y_test = Some [Str ''normal'', Str ''attack'']\<rparr>"

section \<open>Properties\<close>

subsection \<open>The example, evaluated\<close>

lemma preprocess_example: "preprocess example_table = Inr (example_X, example_y)"
  by code_simp

lemma get_dataset_example:
  "get_dataset example_sklearn example_world ''simple_nslkdd'' ''data.csv''
     = (example_output, Inr example_loader)"
  by code_simp

lemma init_example:
  "init example_sklearn example_world SimpleNSLKDD ''data.csv'' (2 / 10) 42
     = (example_output, Inr example_loader)"
  by code_simp

lemma sklearn_contract_example: "sklearn_contract example_sklearn"
  unfolding sklearn_contract_def
  by (auto simp: example_sklearn_def split: if_splits)

subsection \<open>What a returned object went through\<close>

lemma store_split_fields [simp]:
  "data_path (store_split self parts) = data_path self"
  "test_size (store_split self parts) = test_size self"
  "random_state (store_split self parts) = random_state self"
  by (simp_all add: store_split_def split: prod.splits)

lemma split_data_branch:
  "split_data lib w self X y =
     (let r = train_test_split lib w X y (test_size self) (Some (random_state self))
                (if int (length (remdups y)) \<le> py_int (real (length y) * test_size self)
                 then Some y else None);
          warning = (if int (length (remdups y)) \<le> py_int (real (length y) * test_size self) then []
                     else [stratify_warning (py_int (real (length y) * test_size self))
                             (length (remdups y))])
      in (warning @ split_report r, map_sum id (store_split self) r))"
  by (simp add: split_data_def Let_def split_report_def split: sum.splits prod.splits)

lemma split_data_Inr:
  assumes "split_data lib w self X y = (out, Inr self')"
  shows "\<exists>Xtr Xte ytr yte st.
           train_test_split lib w X y (test_size self) (Some (random_state self)) st
             = Inr (Xtr, Xte, ytr, yte)
           \<and> (st = None \<or> st = Some y)
           \<and> self' = store_split self (Xtr, Xte, ytr, yte)"
proof -
  define st where "st = (if int (length (remdups y)) \<le> py_int (real (length y) * test_size self)
                         then Some y else None)"
  define r where "r = train_test_split lib w X y (test_size self) (Some (random_state self)) st"
  have "map_sum id (store_split self) r = Inr self'"
    using assms unfolding split_data_branch Let_def r_def st_def by simp
  then obtain parts where "r = Inr parts" "self' = store_split self parts"
    by (cases r) auto
  moreover obtain Xtr Xte ytr yte where "parts = (Xtr, Xte, ytr, yte)"
    by (cases parts) auto
  moreover have "st = None \<or> st = Some y"
    by (simp add: st_def)
  ultimately show ?thesis
    unfolding r_def by blast
qed

lemma split_data_fields:
  assumes "split_data lib w self X y = (out, Inr self')"
  shows "data_path self' = data_path self \<and> test_size self' = test_size self
         \<and> random_state self' = random_state self"
  using split_data_Inr [OF assms] by auto

lemma split_data_containers:
  assumes "split_data lib w self X y = (out, Inr self')"
  shows "\<exists>Xtr Xte ytr yte. X_train self' = Some Xtr \<and> y_train self' = Some ytr
           \<and> X_test self' = Some Xte \<and> y_test self' = Some yte"
  using split_data_Inr [OF assms] by (auto simp: store_split_def)

lemma load_and_process_Inr:
  assumes "load_and_process lib w cls self = (out, Inr self')"
  shows "\<exists>o1 raw X y o2. load_data cls w (data_path self) = (o1, Inr raw)
           \<and> preprocess raw = Inr (X, y) \<and> split_data lib w self X y = (o2, Inr self')"
  using assms
  by (auto simp: load_and_process_def Let_def split: sum.splits prod.splits)

lemma init_Inr:
  assumes "init lib w cls p ts rs = (out, Inr self)"
  shows "\<exists>o1 raw X y o2. load_data cls w p = (o1, Inr raw) \<and> preprocess raw = Inr (X, y)
           \<and> split_data lib w
                 \<lparr>data_path = p, test_size = ts, random_state = rs,
                  X_train = None, y_train = None, X_test = None, y_test = None\<rparr> X y
               = (o2, Inr self)"
  using load_and_process_Inr [OF assms [unfolded init_def]] by simp

lemma init_fields:
  assumes "init lib w cls p ts rs = (out, Inr self)"
  shows "data_path self = p \<and> test_size self = ts \<and> random_state self = rs"
proof -
  from init_Inr [OF assms] obtain X y o2 where
    "split_data lib w \<lparr>data_path = p, test_size = ts, random_state = rs,
        X_train = None, y_train = None, X_test = None, y_test = None\<rparr> X y = (o2, Inr self)"
    by blast
  from split_data_fields [OF this] show ?thesis by simp
qed

subsection \<open>A missing file\<close>

text \<open>
  C1. The claim: constructing a loader on a path where no file is raises nothing and ends
  in an empty-table state. The load step does what the claim says: it prints the two
  diagnostic lines and returns the empty table. The construction does not: the next step,
  \<open>_preprocess\<close>, indexes the last column of a table without columns and raises
  \<open>IndexError\<close>, which neither the constructor nor the factory nor \<open>main.py\<close> catches.
  The theorem states what the code does on every such path.
\<close>

theorem missing_file_construction_raises:
  assumes "files w p = Inl (FileNotFoundError m)"
  shows "SimpleNSLKDD_load_data w p
           = ([''Error: Data file not found at '' @ p,
               ''Please create a dummy data file to proceed.''],
              Inr empty_DataFrame)
         \<and> init lib w SimpleNSLKDD p ts rs
           = ([''Loading data from '' @ p @ ''...'',
               ''Error: Data file not found at '' @ p,
               ''Please create a dummy data file to proceed.'',
               ''Preprocessing data...''],
              Inl (IndexError ''single positional indexer is out-of-bounds''))
         \<and> get_dataset lib w ''simple_nslkdd'' p
           = ([''Loading data from '' @ p @ ''...'',
               ''Error: Data file not found at '' @ p,
               ''Please create a dummy data file to proceed.'',
               ''Preprocessing data...''],
              Inl (IndexError ''single positional indexer is out-of-bounds''))
         \<and> \<not> caught_by_main (IndexError ''single positional indexer is out-of-bounds'')"
proof -
  have l: "SimpleNSLKDD_load_data w p
           = ([''Error: Data file not found at '' @ p,
               ''Please create a dummy data file to proceed.''],
              Inr empty_DataFrame)"
    by (simp add: SimpleNSLKDD_load_data_def assms)
  have pre: "preprocess empty_DataFrame
               = Inl (IndexError ''single positional indexer is out-of-bounds'')"
    by (simp add: preprocess_def iloc_last_def empty_DataFrame_def)
  show ?thesis
    by (simp add: l pre init_def load_and_process_def get_dataset_def dataset_map_def)
qed

theorem missing_file_construction_raises_witness:
  "files example_world ''data/raw/simple_nslkdd.csv''
     = Inl (FileNotFoundError ''data/raw/simple_nslkdd.csv'')
   \<and> SimpleNSLKDD_load_data example_world ''data/raw/simple_nslkdd.csv''
     = ([''Error: Data file not found at data/raw/simple_nslkdd.csv'',
         ''Please create a dummy data file to proceed.''],
        Inr empty_DataFrame)
   \<and> get_dataset example_sklearn example_world ''simple_nslkdd'' ''data/raw/simple_nslkdd.csv''
     = ([''Loading data from data/raw/simple_nslkdd.csv...'',
         ''Error: Data file not found at data/raw/simple_nslkdd.csv'',
         ''Please create a dummy data file to proceed.'',
         ''Preprocessing data...''],
        Inl (IndexError ''single positional indexer is out-of-bounds''))"
proof -
  have f: "files example_world ''data/raw/simple_nslkdd.csv''
             = Inl (FileNotFoundError ''data/raw/simple_nslkdd.csv'')"
    by (simp add: example_world_def)
  from missing_file_construction_raises [OF f, of example_sklearn 0 0] f
  show ?thesis by simp
qed

subsection \<open>The split: stratified or not\<close>





subsection \<open>The split: sizes and pairing\<close>

lemma distinct_below_is_permutation:
  assumes "distinct xs" "\<forall>i\<in>set xs. i < n" "length xs = n"
  shows "mset xs = mset [0..<n]"
proof -
  have "set xs \<subseteq> {0..<n}" using assms(2) by auto
  moreover have "card (set xs) = card {0..<n}"
    using assms(1,3) by (simp add: distinct_card)
  ultimately have "set xs = {0..<n}"
    by (intro card_subset_eq) auto
  then have "mset_set (set xs) = mset_set {0..<n}" by simp
  then show ?thesis
    using assms(1) by (simp add: mset_set_set)
qed

lemma validate_shuffle_split_sizes:
  assumes "validate_shuffle_split n ts = Inr (n_train, n_test)"
  shows "n_train + n_test = n \<and> 0 < n_train"
  using assms
  by (auto simp: validate_shuffle_split_def Let_def split: if_splits)

lemma shuffle_split_permutation:
  assumes "mset (permutation lib g n) = mset [0..<n]" "n_train + n_test = n"
  shows "length (fst (shuffle_split lib g n n_train n_test)) = n_train"
    and "length (snd (shuffle_split lib g n n_train n_test)) = n_test"
    and "mset (fst (shuffle_split lib g n n_train n_test) @ snd (shuffle_split lib g n n_train n_test))
           = mset [0..<n]"
proof -
  let ?p = "permutation lib g n"
  have len: "length ?p = n"
    using assms(1) by (metis length_upt mset_eq_length minus_nat.diff_0)
  show "length (fst (shuffle_split lib g n n_train n_test)) = n_train"
    using len assms(2) by (simp add: shuffle_split_def Let_def)
  show "length (snd (shuffle_split lib g n n_train n_test)) = n_test"
    using len assms(2) by (simp add: shuffle_split_def Let_def)
  have "take n_train (drop n_test ?p) = drop n_test ?p"
    using len assms(2) by simp
  then have "mset (take n_train (drop n_test ?p) @ take n_test ?p) = mset ?p"
    by (metis append_take_drop_id mset_append union_commute)
  then show "mset (fst (shuffle_split lib g n n_train n_test) @ snd (shuffle_split lib g n n_train n_test))
               = mset [0..<n]"
    using assms(1) by (simp add: shuffle_split_def Let_def)
qed

lemma zip_nth_upt:
  assumes "length xs = length ys"
  shows "map (\<lambda>i. (xs ! i, ys ! i)) [0..<length xs] = zip xs ys"
  using assms by (intro nth_equalityI) auto

lemma zip_map_same: "zip (map f xs) (map g xs) = map (\<lambda>i. (f i, g i)) xs"
  by (induction xs) auto

lemma safe_indexing_Inr:
  assumes "safe_indexing a idx = Inr b"
  shows "b = map (\<lambda>i. a ! i) idx \<and> (\<forall>i\<in>set idx. i < length a)"
  using assms by (auto simp: safe_indexing_def list_all_iff split: if_splits)

lemma train_test_split_Inr:
  assumes "train_test_split lib w X y ts rs st = Inr (Xtr, Xte, ytr, yte)"
  shows "\<exists>n_train n_test train test.
           length X = length y
           \<and> validate_shuffle_split (length X) ts = Inr (n_train, n_test)
           \<and> (case st of
                 None \<Rightarrow> Inr (shuffle_split lib (check_random_state lib w rs) (length X) n_train n_test)
               | Some classes \<Rightarrow> stratified_shuffle lib (check_random_state lib w rs) classes n_train n_test)
               = Inr (train, test)
           \<and> Xtr = map (\<lambda>i. X ! i) train \<and> Xte = map (\<lambda>i. X ! i) test
           \<and> ytr = map (\<lambda>i. y ! i) train \<and> yte = map (\<lambda>i. y ! i) test"
  using assms
  by (auto simp: train_test_split_def Let_def split: if_splits sum.splits prod.splits
           dest!: safe_indexing_Inr)

lemma train_test_split_paired:
  assumes c: "sklearn_contract lib"
    and r: "train_test_split lib w X y ts rs st = Inr (Xtr, Xte, ytr, yte)"
    and st: "\<And>classes. st = Some classes \<Longrightarrow> length classes = length y"
  shows "length X = length y \<and> length Xtr + length Xte = length X
         \<and> length Xtr = length ytr \<and> length Xte = length yte
         \<and> mset (zip Xtr ytr) + mset (zip Xte yte) = mset (zip X y)"
proof -
  from train_test_split_Inr [OF r] obtain n_train n_test train test where
    len: "length X = length y"
    and v: "validate_shuffle_split (length X) ts = Inr (n_train, n_test)"
    and idx: "(case st of
                 None \<Rightarrow> Inr (shuffle_split lib (check_random_state lib w rs) (length X) n_train n_test)
               | Some classes \<Rightarrow> stratified_shuffle lib (check_random_state lib w rs) classes n_train n_test)
              = Inr (train, test)"
    and parts: "Xtr = map (\<lambda>i. X ! i) train" "Xte = map (\<lambda>i. X ! i) test"
               "ytr = map (\<lambda>i. y ! i) train" "yte = map (\<lambda>i. y ! i) test"
    by blast
  from validate_shuffle_split_sizes [OF v] have sum: "n_train + n_test = length X"
    by simp
  have perm: "length train = n_train \<and> length test = n_test
              \<and> mset (train @ test) = mset [0..<length X]"
  proof (cases st)
    case None
    from c have p: "mset (permutation lib (check_random_state lib w rs) (length X))
                      = mset [0..<length X]"
      by (simp add: sklearn_contract_def)
    from idx None
    have "shuffle_split lib (check_random_state lib w rs) (length X) n_train n_test = (train, test)"
      by simp
    with shuffle_split_permutation [OF p sum] show ?thesis
      by simp
  next
    case (Some classes)
    with idx
    have s: "stratified_shuffle lib (check_random_state lib w rs) classes n_train n_test
               = Inr (train, test)"
      by simp
    from c s have k: "length train = n_train" "length test = n_test" "distinct (train @ test)"
      "\<forall>i \<in> set (train @ test). i < length classes"
      unfolding sklearn_contract_def by blast+
    from st [OF Some] len have "length classes = length X"
      by simp
    with k sum have "mset (train @ test) = mset [0..<length X]"
      by (intro distinct_below_is_permutation) auto
    with k show ?thesis
      by simp
  qed
  let ?h = "\<lambda>i. (X ! i, y ! i)"
  have "mset (zip Xtr ytr) + mset (zip Xte yte) = image_mset ?h (mset (train @ test))"
    by (simp add: parts zip_map_same)
  also have "\<dots> = image_mset ?h (mset [0..<length X])"
    using perm by simp
  also have "\<dots> = mset (map ?h [0..<length X])"
    by simp
  also have "\<dots> = mset (zip X y)"
    using zip_nth_upt [OF len] by simp
  finally have "mset (zip Xtr ytr) + mset (zip Xte yte) = mset (zip X y)" .
  with len perm sum show ?thesis
    by (simp add: parts)
qed

text \<open>
  C3. Let the library's index generators keep their contract. For every loader that was
  constructed there are the feature matrix \<open>X\<close> and the label vector \<open>y\<close> that
  \<open>_preprocess\<close> returned, and the four containers \<open>get_data\<close> hands out satisfy
  \<open>len(X_train) + len(X_test) = len(X) = len(y)\<close>, \<open>len(X_train) = len(y_train)\<close>,
  \<open>len(X_test) = len(y_test)\<close>; the rows of \<open>X_train\<close> paired with \<open>y_train\<close> together with
  the rows of \<open>X_test\<close> paired with \<open>y_test\<close> are exactly the rows of \<open>X\<close> paired with
  \<open>y\<close>, each pair once.
\<close>

theorem split_is_paired_partition:
  assumes "sklearn_contract lib" and "init lib w cls p ts rs = (out, Inr self)"
  shows "\<exists>o1 raw X y Xtr ytr Xte yte.
           load_data cls w p = (o1, Inr raw) \<and> preprocess raw = Inr (X, y)
           \<and> get_data self = ((Some Xtr, Some ytr, Some Xte, Some yte), self)
           \<and> length Xtr + length Xte = length X \<and> length X = length y
           \<and> length Xtr = length ytr \<and> length Xte = length yte
           \<and> mset (zip Xtr ytr) + mset (zip Xte yte) = mset (zip X y)"
proof -
  let ?self0 = "\<lparr>data_path = p, test_size = ts, random_state = rs,
                  X_train = None, y_train = None, X_test = None, y_test = None\<rparr>"
  from init_Inr [OF assms(2)] obtain o1 raw X y o2 where
    l: "load_data cls w p = (o1, Inr raw)" and pre: "preprocess raw = Inr (X, y)"
    and s: "split_data lib w ?self0 X y = (o2, Inr self)"
    by blast
  from split_data_Inr [OF s] obtain Xtr Xte ytr yte st where
    t: "train_test_split lib w X y (test_size ?self0) (Some (random_state ?self0)) st
          = Inr (Xtr, Xte, ytr, yte)"
    and st: "st = None \<or> st = Some y"
    and self: "self = store_split ?self0 (Xtr, Xte, ytr, yte)"
    by blast
  have "length classes = length y" if "st = Some classes" for classes
    using st that by auto
  from train_test_split_paired [OF assms(1) t this]
  have "length X = length y \<and> length Xtr + length Xte = length X
         \<and> length Xtr = length ytr \<and> length Xte = length yte
         \<and> mset (zip Xtr ytr) + mset (zip Xte yte) = mset (zip X y)" .
  moreover have "get_data self = ((Some Xtr, Some ytr, Some Xte, Some yte), self)"
    by (simp add: get_data_def self store_split_def)
  ultimately show ?thesis
    using l pre by blast
qed

theorem split_is_paired_partition_witness:
  "sklearn_contract example_sklearn
   \<and> init example_sklearn example_world SimpleNSLKDD ''data.csv'' (2 / 10) 42
       = (example_output, Inr example_loader)
   \<and> (\<exists>o1 raw X y Xtr ytr Xte yte.
           load_data SimpleNSLKDD example_world ''data.csv'' = (o1, Inr raw)
           \<and> preprocess raw = Inr (X, y)
           \<and> get_data example_loader = ((Some Xtr, Some ytr, Some Xte, Some yte), example_loader)
           \<and> length Xtr + length Xte = length X \<and> length X = length y
           \<and> length Xtr = length ytr \<and> length Xte = length yte
           \<and> mset (zip Xtr ytr) + mset (zip Xte yte) = mset (zip X y))"
  using sklearn_contract_example init_example
    split_is_paired_partition [OF sklearn_contract_example init_example]
  by blast

subsection \<open>Preprocessing: the scaled features\<close>














subsection \<open>The factory\<close>

lemma registered_names: "str_list (map fst dataset_map) = ''['simple_nslkdd']''"
  by (simp add: str_list_def dataset_map_def repr_str_def)

text \<open>
  C5, as amended. The claim as stated promises a loader for every registered name; on a
  file with a single row the factory raises instead, because \<open>train_test_split\<close> refuses an
  empty train part. What holds: for a name that is not registered, \<open>get_dataset\<close> prints
  nothing and raises \<open>ValueError\<close> whose message names the rejected name and ends with the
  list of the registered names, which is \<open>['simple_nslkdd']\<close>; and whenever \<open>get_dataset\<close>
  returns a loader, none of the four containers \<open>get_data\<close> hands out is \<open>None\<close>.
\<close>

theorem get_dataset_unknown_or_ready:
  "(name \<notin> set (map fst dataset_map) \<longrightarrow>
      get_dataset lib w name p
        = ([], Inl (ValueError (''Dataset '' @ [CHR 0x27] @ name @ [CHR 0x27]
                               @ '' not recognized. Available datasets: ''
                               @ str_list (map fst dataset_map))))
      \<and> str_list (map fst dataset_map) = ''['simple_nslkdd']'')
   \<and> (\<forall>out self. get_dataset lib w name p = (out, Inr self) \<longrightarrow>
         (\<exists>Xtr ytr Xte yte. fst (get_data self) = (Some Xtr, Some ytr, Some Xte, Some yte)))"
proof (intro conjI impI allI)
  assume "name \<notin> set (map fst dataset_map)"
  then have "map_of dataset_map name = None"
    by (simp add: map_of_eq_None_iff)
  then show "get_dataset lib w name p
        = ([], Inl (ValueError (''Dataset '' @ [CHR 0x27] @ name @ [CHR 0x27]
                               @ '' not recognized. Available datasets: ''
                               @ str_list (map fst dataset_map))))"
    by (simp add: get_dataset_def)
next
  show "str_list (map fst dataset_map) = ''['simple_nslkdd']''"
    by (rule registered_names)
next
  fix out self
  assume g: "get_dataset lib w name p = (out, Inr self)"
  then obtain cls where "init lib w cls p default_test_size default_random_state = (out, Inr self)"
    by (auto simp: get_dataset_def split: option.splits)
  from init_Inr [OF this] obtain X y o2 where
    "split_data lib w
       \<lparr>data_path = p, test_size = default_test_size, random_state = default_random_state,
        X_train = None, y_train = None, X_test = None, y_test = None\<rparr> X y = (o2, Inr self)"
    by blast
  from split_data_containers [OF this]
  show "\<exists>Xtr ytr Xte yte. fst (get_data self) = (Some Xtr, Some ytr, Some Xte, Some yte)"
    by (auto simp: get_data_def)
qed

theorem get_dataset_unknown_or_ready_witness:
  "''foo'' \<notin> set (map fst dataset_map)
   \<and> get_dataset example_sklearn example_world ''foo'' ''data.csv''
       = ([], Inl (ValueError
                    ''Dataset 'foo' not recognized. Available datasets: ['simple_nslkdd']''))
   \<and> get_dataset example_sklearn example_world ''simple_nslkdd'' ''data.csv''
       = (example_output, Inr example_loader)
   \<and> (\<exists>Xtr ytr Xte yte.
         fst (get_data example_loader) = (Some Xtr, Some ytr, Some Xte, Some yte))"
proof -
  have n: "''foo'' \<notin> set (map fst dataset_map)"
    by (simp add: dataset_map_def)
  from get_dataset_unknown_or_ready [of "''foo''" example_sklearn example_world "''data.csv''"] n
  have "get_dataset example_sklearn example_world ''foo'' ''data.csv''
       = ([], Inl (ValueError
                    ''Dataset 'foo' not recognized. Available datasets: ['simple_nslkdd']''))"
    by simp
  moreover
  from get_dataset_unknown_or_ready
         [of "''simple_nslkdd''" example_sklearn example_world "''data.csv''"]
       get_dataset_example
  have "\<exists>Xtr ytr Xte yte.
         fst (get_data example_loader) = (Some Xtr, Some ytr, Some Xte, Some yte)"
    by blast
  ultimately show ?thesis
    using n get_dataset_example by blast
qed

theorem get_dataset_single_row_counterexample:
  "''simple_nslkdd'' \<in> set (map fst dataset_map)
   \<and> get_dataset example_sklearn example_world ''simple_nslkdd'' ''one_row.csv''
       = ([''Loading data from one_row.csv...'', ''Preprocessing data...'',
           ''Warning: Test set size (0) is smaller than number of classes (1). Disabling stratification for this split.''],
          Inl (ValueError ''the resulting train set will be empty''))"
  by code_simp

text \<open>
  C9. For a registered name, \<open>get_dataset\<close> is the construction of a \<open>SimpleNSLKDD\<close> loader
  on the given path with \<open>test_size = 0.2\<close> and \<open>random_state = 42\<close>, and a loader it
  returns holds the path and these two values. The name and the path are all the caller
  passes.
\<close>

theorem get_dataset_fixed_defaults:
  assumes "name \<in> set (map fst dataset_map)"
  shows "get_dataset lib w name p = init lib w SimpleNSLKDD p (2 / 10) 42
         \<and> (\<forall>out self. get_dataset lib w name p = (out, Inr self)
               \<longrightarrow> data_path self = p \<and> test_size self = 2 / 10 \<and> random_state self = 42)"
proof -
  have eq: "get_dataset lib w name p = init lib w SimpleNSLKDD p (2 / 10) 42"
    using assms
    by (simp add: get_dataset_def dataset_map_def default_test_size_def default_random_state_def)
  show ?thesis
    unfolding eq using init_fields by blast
qed

theorem get_dataset_fixed_defaults_witness:
  "''simple_nslkdd'' \<in> set (map fst dataset_map)
   \<and> get_dataset example_sklearn example_world ''simple_nslkdd'' ''data.csv''
       = init example_sklearn example_world SimpleNSLKDD ''data.csv'' (2 / 10) 42
   \<and> get_dataset example_sklearn example_world ''simple_nslkdd'' ''data.csv''
       = (example_output, Inr example_loader)
   \<and> data_path example_loader = ''data.csv''
   \<and> test_size example_loader = 2 / 10 \<and> random_state example_loader = 42"
proof -
  have r: "''simple_nslkdd'' \<in> set (map fst dataset_map)"
    by (simp add: dataset_map_def)
  from get_dataset_fixed_defaults [OF r, of example_sklearn example_world "''data.csv''"]
       get_dataset_example r
  show ?thesis
    by simp
qed

subsection \<open>Determinism\<close>

lemma check_random_state_seeded: "check_random_state lib w (Some s) = RandomState lib s"
  by (simp add: check_random_state_def)

lemma train_test_split_seeded:
  "train_test_split lib w1 X y ts (Some s) st = train_test_split lib w2 X y ts (Some s) st"
  unfolding train_test_split_def check_random_state_seeded ..

lemma split_data_world: "split_data lib w1 self X y = split_data lib w2 self X y"
  unfolding split_data_def train_test_split_seeded [of lib w1 _ _ _ _ _ w2] ..

lemma load_data_world:
  assumes "files w1 p = files w2 p"
  shows "load_data cls w1 p = load_data cls w2 p"
  using assms by (cases cls) (simp add: SimpleNSLKDD_load_data_def)

lemma load_and_process_world:
  assumes "files w1 (data_path self) = files w2 (data_path self)"
  shows "load_and_process lib w1 cls self = load_and_process lib w2 cls self"
  unfolding load_and_process_def load_data_world [OF assms] split_data_world [of lib w1 _ _ _ w2] ..

text \<open>
  C6. Two constructions with the same path, test size and random state, in two worlds
  that hold the same file under that path, have the same outcome: the same printed
  lines and either the same exception or loaders with the same four containers. Nothing
  else of the world matters: not the other files, not the state of the global random
  generator. The same holds through the factory.
\<close>

theorem construction_deterministic:
  assumes "files w1 p = files w2 p"
  shows "init lib w1 cls p ts rs = init lib w2 cls p ts rs
         \<and> get_dataset lib w1 name p = get_dataset lib w2 name p"
proof -
  have "init lib w1 c p t r = init lib w2 c p t r" for c t r
    unfolding init_def by (rule load_and_process_world) (simp add: assms)
  then show ?thesis
    by (simp add: get_dataset_def split: option.splits)
qed

theorem construction_deterministic_witness:
  "files example_world ''data.csv'' = files later_world ''data.csv''
   \<and> np_random example_world \<noteq> np_random later_world
   \<and> files example_world ''one_row.csv'' \<noteq> files later_world ''one_row.csv''
   \<and> init example_sklearn example_world SimpleNSLKDD ''data.csv'' (2 / 10) 42
       = init example_sklearn later_world SimpleNSLKDD ''data.csv'' (2 / 10) 42
   \<and> get_dataset example_sklearn later_world ''simple_nslkdd'' ''data.csv''
       = (example_output, Inr example_loader)"
proof -
  have f: "files example_world ''data.csv'' = files later_world ''data.csv''"
    by (simp add: example_world_def later_world_def)
  have d: "np_random example_world \<noteq> np_random later_world
           \<and> files example_world ''one_row.csv'' \<noteq> files later_world ''one_row.csv''"
    by (simp add: example_world_def later_world_def)
  from construction_deterministic
         [OF f, of example_sklearn SimpleNSLKDD "2 / 10" 42 "''simple_nslkdd''"]
       get_dataset_example f d
  show ?thesis
    by simp
qed

subsection \<open>Raw load: synthesized column names\<close>

lemma map_fst_map2:
  "length ns = length cs \<Longrightarrow> map fst (map2 (\<lambda>n c. (f n, g c)) ns cs) = map f ns"
  by (induction ns cs rule: list_induct2) auto

lemma map_snd_map2:
  "length ns = length cs \<Longrightarrow> map snd (map2 (\<lambda>n c. (f n, g c)) ns cs) = map g cs"
  by (induction ns cs rule: list_induct2) auto

text \<open>
  C7. When the file at the path parses to a table of \<open>n + 1\<close> columns, \<open>_load_data\<close> prints
  nothing and returns the same table, its first \<open>n\<close> columns named \<open>feature_0\<close> to
  \<open>feature_{n-1}\<close> and its last column named \<open>label\<close>.
\<close>

theorem load_data_column_names:
  assumes "files w p = Inr df" and "length (cols df) = n + 1"
  shows "\<exists>df'. SimpleNSLKDD_load_data w p = ([], Inr df')
           \<and> map fst (cols df') = map (\<lambda>i. Name (''feature_'' @ str_nat i)) [0..<n] @ [Name ''label'']
           \<and> map snd (cols df') = map snd (cols df)
           \<and> nrows df' = nrows df"
proof -
  define names where "names = map (\<lambda>i. ''feature_'' @ str_nat i) [0..<n] @ [''label'']"
  define df' where "df' = df\<lparr>cols := map2 (\<lambda>n c. (Name n, snd c)) names (cols df)\<rparr>"
  have len: "length names = length (cols df)"
    using assms(2) by (simp add: names_def)
  have "SimpleNSLKDD_load_data w p = ([], Inr df')"
    by (simp add: SimpleNSLKDD_load_data_def set_columns_def assms df'_def names_def)
  moreover have "map fst (cols df') = map Name names"
    unfolding df'_def using map_fst_map2 [OF len] by simp
  moreover have "map snd (cols df') = map snd (cols df)"
    unfolding df'_def using map_snd_map2 [OF len] by simp
  moreover have "nrows df' = nrows df"
    by (simp add: df'_def)
  ultimately show ?thesis
    by (auto simp: names_def comp_def)
qed

lemma feature_names_4:
  "map (\<lambda>i. Name (''feature_'' @ str_nat i)) [0..<4] @ [Name ''label'']
     = [Name ''feature_0'', Name ''feature_1'', Name ''feature_2'', Name ''feature_3'',
        Name ''label'']"
  by (simp add: upt_rec str_nat.simps digit_char_def)

theorem load_data_column_names_witness:
  "files example_world ''data.csv'' = Inr example_table \<and> length (cols example_table) = 4 + 1
   \<and> (\<exists>df'. SimpleNSLKDD_load_data example_world ''data.csv'' = ([], Inr df')
           \<and> map fst (cols df')
               = [Name ''feature_0'', Name ''feature_1'', Name ''feature_2'', Name ''feature_3'',
                  Name ''label'']
           \<and> map snd (cols df') = map snd (cols example_table)
           \<and> nrows df' = nrows example_table)"
proof -
  have f: "files example_world ''data.csv'' = Inr example_table"
    by (simp add: example_world_def)
  have l: "length (cols example_table) = 4 + 1"
    by (simp add: example_table_def)
  show ?thesis
    using f l load_data_column_names [OF f l] unfolding feature_names_4 by simp
qed

subsection \<open>Preprocessing: the label column\<close>

text \<open>
  C8. Whenever \<open>_preprocess\<close> returns, the label vector it returns is the last column of
  the raw table, cell for cell and in the same order: no scaling, no encoding.
\<close>

theorem preprocess_label_untouched:
  assumes "preprocess df = Inr (X, y)"
  shows "cols df \<noteq> [] \<and> y = snd (last (cols df))"
  using assms
  by (auto simp: preprocess_def iloc_last_def Let_def split: if_splits sum.splits)

theorem preprocess_label_untouched_witness:
  "preprocess example_table = Inr (example_X, example_y)
   \<and> cols example_table \<noteq> []
   \<and> example_y = snd (last (cols example_table))"
  using preprocess_example preprocess_label_untouched [OF preprocess_example]
  by simp

subsection \<open>The accessor\<close>

text \<open>
  C10. \<open>get_data\<close> returns the tuple \<open>(X_train, y_train, X_test, y_test)\<close> of the object's
  fields and leaves the object as it was, so any number of calls return the same tuple
  and no field changes.
\<close>

theorem get_data_pure:
  "get_data self = ((X_train self, y_train self, X_test self, y_test self), self)
   \<and> get_data_calls n self
       = (replicate n (X_train self, y_train self, X_test self, y_test self), self)"
  by (induction n) (simp_all add: get_data_def)

end
